theory Spec2Isabelle
  imports Main "HOL-Library.Word"
begin

section \<open>Input devices and their capability provider\<close>

text \<open>
  The seat code in \<^verbatim>\<open>src/core/seat/seat.cpp\<close> drives libinput through its configuration
  calls. A libinput device is modelled by what its getters return, by the values its
  setters store, and by the list of setter calls it has received (oldest first), so that
  "no provider call" is a statement about that list. The setters are taken to accept the
  value they are given; the seat code never looks at their status.

  The type \<open>'d\<close> stands for C's \<^verbatim>\<open>double\<close>: speeds are only passed through.
\<close>

datatype libinput_config_send_events_mode =
    LIBINPUT_CONFIG_SEND_EVENTS_ENABLED
  | LIBINPUT_CONFIG_SEND_EVENTS_DISABLED
  | LIBINPUT_CONFIG_SEND_EVENTS_DISABLED_ON_EXTERNAL_MOUSE

datatype libinput_config_tap_state = LIBINPUT_CONFIG_TAP_DISABLED | LIBINPUT_CONFIG_TAP_ENABLED

datatype libinput_config_dwt_state = LIBINPUT_CONFIG_DWT_DISABLED | LIBINPUT_CONFIG_DWT_ENABLED

datatype libinput_config_click_method =
    LIBINPUT_CONFIG_CLICK_METHOD_NONE
  | LIBINPUT_CONFIG_CLICK_METHOD_BUTTON_AREAS
  | LIBINPUT_CONFIG_CLICK_METHOD_CLICKFINGER

datatype libinput_config_scroll_method =
    LIBINPUT_CONFIG_SCROLL_NO_SCROLL
  | LIBINPUT_CONFIG_SCROLL_2FG
  | LIBINPUT_CONFIG_SCROLL_EDGE
  | LIBINPUT_CONFIG_SCROLL_ON_BUTTON_DOWN

datatype 'd libinput_call =
    Accel_set_speed 'd
  | Tap_set_enabled libinput_config_tap_state
  | Click_set_method libinput_config_click_method
  | Scroll_set_method libinput_config_scroll_method
  | Dwt_set_enabled libinput_config_dwt_state
  | Send_events_set_mode libinput_config_send_events_mode
  | Scroll_set_natural_scroll_enabled bool

record 'd libinput_device =
  send_events_mode :: libinput_config_send_events_mode
  tap_finger_count :: int
  click_default_method :: libinput_config_click_method
  click_method :: libinput_config_click_method
  scroll_default_method :: libinput_config_scroll_method
  scroll_method :: libinput_config_scroll_method
  has_natural_scroll :: int
  natural_scroll_enabled :: bool
  accel_speed :: 'd
  tap_enabled :: libinput_config_tap_state
  dwt_enabled :: libinput_config_dwt_state
  calls :: "'d libinput_call list"

definition libinput_device_config_send_events_get_mode ::
  "'d libinput_device \<Rightarrow> libinput_config_send_events_mode" where
  "libinput_device_config_send_events_get_mode dev = send_events_mode dev"

definition libinput_device_config_send_events_set_mode ::
  "libinput_config_send_events_mode \<Rightarrow> 'd libinput_device \<Rightarrow> 'd libinput_device" where
  "libinput_device_config_send_events_set_mode m dev =
     dev\<lparr>send_events_mode := m, calls := calls dev @ [Send_events_set_mode m]\<rparr>"

definition libinput_device_config_accel_set_speed ::
  "'d \<Rightarrow> 'd libinput_device \<Rightarrow> 'd libinput_device" where
  "libinput_device_config_accel_set_speed v dev =
     dev\<lparr>accel_speed := v, calls := calls dev @ [Accel_set_speed v]\<rparr>"

definition libinput_device_config_tap_set_enabled ::
  "libinput_config_tap_state \<Rightarrow> 'd libinput_device \<Rightarrow> 'd libinput_device" where
  "libinput_device_config_tap_set_enabled t dev =
     dev\<lparr>tap_enabled := t, calls := calls dev @ [Tap_set_enabled t]\<rparr>"

definition libinput_device_config_click_set_method ::
  "libinput_config_click_method \<Rightarrow> 'd libinput_device \<Rightarrow> 'd libinput_device" where
  "libinput_device_config_click_set_method m dev =
     dev\<lparr>click_method := m, calls := calls dev @ [Click_set_method m]\<rparr>"

definition libinput_device_config_scroll_set_method ::
  "libinput_config_scroll_method \<Rightarrow> 'd libinput_device \<Rightarrow> 'd libinput_device" where
  "libinput_device_config_scroll_set_method m dev =
     dev\<lparr>scroll_method := m, calls := calls dev @ [Scroll_set_method m]\<rparr>"

definition libinput_device_config_dwt_set_enabled ::
  "libinput_config_dwt_state \<Rightarrow> 'd libinput_device \<Rightarrow> 'd libinput_device" where
  "libinput_device_config_dwt_set_enabled t dev =
     dev\<lparr>dwt_enabled := t, calls := calls dev @ [Dwt_set_enabled t]\<rparr>"

definition libinput_device_config_scroll_set_natural_scroll_enabled ::
  "bool \<Rightarrow> 'd libinput_device \<Rightarrow> 'd libinput_device" where
  "libinput_device_config_scroll_set_natural_scroll_enabled b dev =
     dev\<lparr>natural_scroll_enabled := b, calls := calls dev @ [Scroll_set_natural_scroll_enabled b]\<rparr>"

text \<open>
  A \<^verbatim>\<open>wlr_input_device\<close> either belongs to the libinput backend, and then carries its
  libinput device, or it does not: \<^verbatim>\<open>wlr_input_device_is_libinput\<close> tells which, and
  \<^verbatim>\<open>wlr_libinput_get_device_handle\<close> is called on libinput devices only.
\<close>

datatype wlr_input_device_type =
    WLR_INPUT_DEVICE_KEYBOARD
  | WLR_INPUT_DEVICE_POINTER
  | WLR_INPUT_DEVICE_TOUCH
  | WLR_INPUT_DEVICE_TABLET_TOOL
  | WLR_INPUT_DEVICE_TABLET_PAD
  | WLR_INPUT_DEVICE_SWITCH

record 'd wlr_input_device =
  device_type :: wlr_input_device_type
  libinput_handle :: "'d libinput_device option"

definition wlr_input_device_is_libinput :: "'d wlr_input_device \<Rightarrow> bool" where
  "wlr_input_device_is_libinput h = (libinput_handle h \<noteq> None)"

record 'd input_device_t =
  handle :: "'d wlr_input_device"

definition get_wlr_handle :: "'d input_device_t \<Rightarrow> 'd wlr_input_device" where
  "get_wlr_handle self = handle self"

text \<open>\<^verbatim>\<open>input_device_t::is_enabled\<close>: non-libinput devices always count as enabled.\<close>

definition is_enabled :: "'d input_device_t \<Rightarrow> bool" where
  "is_enabled self =
     (case libinput_handle (handle self) of
        None \<Rightarrow> True
      | Some dev \<Rightarrow>
          libinput_device_config_send_events_get_mode dev = LIBINPUT_CONFIG_SEND_EVENTS_ENABLED)"

text \<open>
  \<^verbatim>\<open>input_device_t::set_enabled\<close>: the returned pair is the C++ return value and the
  device afterwards. The comparison with the current state comes first, the libinput
  test second, as in the source.
\<close>

definition set_enabled :: "bool \<Rightarrow> 'd input_device_t \<Rightarrow> bool \<times> 'd input_device_t" where
  "set_enabled enabled self =
     (if enabled = is_enabled self then (True, self)
      else case libinput_handle (handle self) of
        None \<Rightarrow> (False, self)
      | Some dev \<Rightarrow>
          (True,
           self\<lparr>handle := (handle self)\<lparr>libinput_handle :=
             Some (libinput_device_config_send_events_set_mode
                     (if enabled then LIBINPUT_CONFIG_SEND_EVENTS_ENABLED
                      else LIBINPUT_CONFIG_SEND_EVENTS_DISABLED) dev)\<rparr>\<rparr>))"

text \<open>A caller issuing several \<^verbatim>\<open>set_enabled\<close> requests in a row, results discarded.\<close>

fun set_enabled_calls :: "bool list \<Rightarrow> 'd input_device_t \<Rightarrow> 'd input_device_t" where
  "set_enabled_calls [] self = self"
| "set_enabled_calls (b # bs) self = set_enabled_calls bs (snd (set_enabled b self))"

text \<open>The provider calls a device has received; none for a device without libinput.\<close>

definition provider_calls :: "'d input_device_t \<Rightarrow> 'd libinput_call list" where
  "provider_calls self =
     (case libinput_handle (handle self) of None \<Rightarrow> [] | Some dev \<Rightarrow> calls dev)"

section \<open>Configuration\<close>

text \<open>
  A configuration source maps a section name to that section's options, an option being
  kept as its text. Indexing a configuration by a section name that does not occur
  gives a section without options.
\<close>

type_synonym wayfire_config_section = "string \<rightharpoonup> string"

type_synonym wayfire_config = "string \<Rightarrow> wayfire_config_section"

text \<open>
  Modelled from the spec: \<^verbatim>\<open>get_option(name, default)\<close> of the configuration library is
  not part of \<^verbatim>\<open>seat.cpp\<close>; it yields the named option of the section, with the given
  default "if absent".
\<close>

definition get_option :: "wayfire_config_section \<Rightarrow> string \<Rightarrow> string \<Rightarrow> string" where
  "get_option section name default_value =
     (case section name of Some v \<Rightarrow> v | None \<Rightarrow> default_value)"

record config_t =
  mouse_cursor_speed :: string
  touchpad_cursor_speed :: string
  touchpad_tap_enabled :: string
  touchpad_click_method :: string
  touchpad_scroll_method :: string
  touchpad_dwt_enabled :: string
  touchpad_dwmouse_enabled :: string
  touchpad_natural_scroll_enabled :: string

text \<open>\<^verbatim>\<open>wf_input_device_internal::config_t::load\<close>.\<close>

definition load :: "wayfire_config \<Rightarrow> config_t" where
  "load config =
     (let section = config ''input'' in
      \<lparr>mouse_cursor_speed = get_option section ''mouse_cursor_speed'' ''0'',
       touchpad_cursor_speed = get_option section ''touchpad_cursor_speed'' ''0'',
       touchpad_tap_enabled = get_option section ''tap_to_click'' ''1'',
       touchpad_click_method = get_option section ''click_method'' ''default'',
       touchpad_scroll_method = get_option section ''scroll_method'' ''default'',
       touchpad_dwt_enabled = get_option section ''disable_while_typing'' ''0'',
       touchpad_dwmouse_enabled = get_option section ''disable_touchpad_while_mouse'' ''0'',
       touchpad_natural_scroll_enabled = get_option section ''natural_scroll'' ''0''\<rparr>)"

text \<open>The names of the options that \<^verbatim>\<open>load\<close> asks the section for.\<close>

definition input_option_names :: "string list" where
  "input_option_names =
     [''mouse_cursor_speed'', ''touchpad_cursor_speed'', ''tap_to_click'', ''click_method'',
      ''scroll_method'', ''disable_while_typing'', ''disable_touchpad_while_mouse'',
      ''natural_scroll'']"

text \<open>
  The typed accessors of an option (\<^verbatim>\<open>as_cached_int\<close>, \<^verbatim>\<open>as_cached_double\<close>) belong to the
  configuration library as well; they are parameters of the model. \<^verbatim>\<open>as_string\<close> is the
  option's text itself.
\<close>

record 'd option_accessors =
  as_cached_int :: "string \<Rightarrow> int"
  as_cached_double :: "string \<Rightarrow> 'd"

section \<open>Applying the configuration to a device\<close>

text \<open>
  \<^verbatim>\<open>wf_input_device_internal::update_options\<close>, split at the source's statements. The
  two chains of string comparisons are the source's \<^verbatim>\<open>if\<close>/\<^verbatim>\<open>else if\<close> chains: a text
  that matches no branch calls no setter.
\<close>

definition update_click_method :: "config_t \<Rightarrow> 'd libinput_device \<Rightarrow> 'd libinput_device" where
  "update_click_method config dev =
     (if touchpad_click_method config = ''default'' then
        libinput_device_config_click_set_method (click_default_method dev) dev
      else if touchpad_click_method config = ''none'' then
        libinput_device_config_click_set_method LIBINPUT_CONFIG_CLICK_METHOD_NONE dev
      else if touchpad_click_method config = ''button-areas'' then
        libinput_device_config_click_set_method LIBINPUT_CONFIG_CLICK_METHOD_BUTTON_AREAS dev
      else if touchpad_click_method config = ''clickfinger'' then
        libinput_device_config_click_set_method LIBINPUT_CONFIG_CLICK_METHOD_CLICKFINGER dev
      else dev)"

definition update_scroll_method :: "config_t \<Rightarrow> 'd libinput_device \<Rightarrow> 'd libinput_device" where
  "update_scroll_method config dev =
     (if touchpad_scroll_method config = ''default'' then
        libinput_device_config_scroll_set_method (scroll_default_method dev) dev
      else if touchpad_scroll_method config = ''none'' then
        libinput_device_config_scroll_set_method LIBINPUT_CONFIG_SCROLL_NO_SCROLL dev
      else if touchpad_scroll_method config = ''two-finger'' then
        libinput_device_config_scroll_set_method LIBINPUT_CONFIG_SCROLL_2FG dev
      else if touchpad_scroll_method config = ''edge'' then
        libinput_device_config_scroll_set_method LIBINPUT_CONFIG_SCROLL_EDGE dev
      else if touchpad_scroll_method config = ''on-button-down'' then
        libinput_device_config_scroll_set_method LIBINPUT_CONFIG_SCROLL_ON_BUTTON_DOWN dev
      else dev)"

definition update_natural_scroll ::
  "'d option_accessors \<Rightarrow> config_t \<Rightarrow> 'd libinput_device \<Rightarrow> 'd libinput_device" where
  "update_natural_scroll acc config dev =
     (if has_natural_scroll dev > 0 then
        libinput_device_config_scroll_set_natural_scroll_enabled
          (as_cached_int acc (touchpad_natural_scroll_enabled config) \<noteq> 0) dev
      else dev)"

definition update_touchpad ::
  "'d option_accessors \<Rightarrow> config_t \<Rightarrow> 'd libinput_device \<Rightarrow> 'd libinput_device" where
  "update_touchpad acc config dev0 =
     (let dev1 = libinput_device_config_accel_set_speed
                   (as_cached_double acc (touchpad_cursor_speed config)) dev0;
          dev2 = libinput_device_config_tap_set_enabled
                   (if as_cached_int acc (touchpad_tap_enabled config) \<noteq> 0
                    then LIBINPUT_CONFIG_TAP_ENABLED else LIBINPUT_CONFIG_TAP_DISABLED) dev1;
          dev3 = update_click_method config dev2;
          dev4 = update_scroll_method config dev3;
          dev5 = libinput_device_config_dwt_set_enabled
                   (if as_cached_int acc (touchpad_dwt_enabled config) \<noteq> 0
                    then LIBINPUT_CONFIG_DWT_ENABLED else LIBINPUT_CONFIG_DWT_DISABLED) dev4;
          dev6 = libinput_device_config_send_events_set_mode
                   (if as_cached_int acc (touchpad_dwmouse_enabled config) \<noteq> 0
                    then LIBINPUT_CONFIG_SEND_EVENTS_DISABLED_ON_EXTERNAL_MOUSE
                    else LIBINPUT_CONFIG_SEND_EVENTS_ENABLED) dev5
      in update_natural_scroll acc config dev6)"

definition update_options ::
  "'d option_accessors \<Rightarrow> config_t \<Rightarrow> 'd input_device_t \<Rightarrow> 'd input_device_t" where
  "update_options acc config self =
     (case libinput_handle (get_wlr_handle self) of
        None \<Rightarrow> self
      | Some dev \<Rightarrow>
          self\<lparr>handle := (handle self)\<lparr>libinput_handle := Some
            (if tap_finger_count dev > 0 then update_touchpad acc config dev
             else libinput_device_config_accel_set_speed
                    (as_cached_double acc (mouse_cursor_speed config)) dev)\<rparr>\<rparr>)"

text \<open>The arguments of the click-method and scroll-method setter calls in a call list.\<close>

fun click_set_calls :: "'d libinput_call list \<Rightarrow> libinput_config_click_method list" where
  "click_set_calls [] = []"
| "click_set_calls (Click_set_method m # cs) = m # click_set_calls cs"
| "click_set_calls (_ # cs) = click_set_calls cs"

fun scroll_set_calls :: "'d libinput_call list \<Rightarrow> libinput_config_scroll_method list" where
  "scroll_set_calls [] = []"
| "scroll_set_calls (Scroll_set_method m # cs) = m # scroll_set_calls cs"
| "scroll_set_calls (_ # cs) = scroll_set_calls cs"

section \<open>The core: signals, the seat, the drag slot, the outputs\<close>

text \<open>
  What the handlers reach through the global \<^verbatim>\<open>core\<close> is gathered in one record that
  every handler takes and returns. Calls that leave the file are recorded, oldest first:
  the signals given to \<^verbatim>\<open>core->emit_signal\<close> (name and payload, \<open>None\<close> for
  \<^verbatim>\<open>nullptr\<close>), the wlroots calls of the drag-request handler, the debug log, and for
  every output the boxes handed to its renderer's \<^verbatim>\<open>damage\<close>.
\<close>

record wlr_box =
  box_x :: int
  box_y :: int
  box_width :: int
  box_height :: int

text \<open>
  Modelled from the spec: the operator \<^verbatim>\<open>&\<close> on two boxes belongs to the geometry
  utilities outside \<^verbatim>\<open>seat.cpp\<close>; it tells whether the two boxes "intersect", that is,
  whether they overlap in both directions.
\<close>

definition box_intersects :: "wlr_box \<Rightarrow> wlr_box \<Rightarrow> bool" where
  "box_intersects r1 r2 =
     (\<not> (box_x r1 + box_width r1 \<le> box_x r2 \<or> box_x r2 + box_width r2 \<le> box_x r1 \<or>
         box_y r1 + box_height r1 \<le> box_y r2 \<or> box_y r2 + box_height r2 \<le> box_y r1))"

text \<open>
  An output: its layout geometry, the conversion of its target framebuffer (not part of
  this file, so a parameter of each output), and the damage its renderer has been given.
\<close>

record wayfire_output =
  output_id :: nat
  get_layout_geometry :: wlr_box
  damage_box_from_geometry_box :: "wlr_box \<Rightarrow> wlr_box"
  render_damage :: "wlr_box list"

datatype wlr_drag_grab_type =
    WLR_DRAG_GRAB_KEYBOARD
  | WLR_DRAG_GRAB_KEYBOARD_POINTER
  | WLR_DRAG_GRAB_KEYBOARD_TOUCH

record wlr_surface =
  sx :: int
  sy :: int

text \<open>
  The protocol's drag icon, with the two fields of its drag that the seat code reads
  through \<^verbatim>\<open>icon->drag\<close>.
\<close>

record wlr_drag_icon =
  icon_id :: nat
  surface :: wlr_surface
  grab_type :: wlr_drag_grab_type
  touch_id :: int

text \<open>
  A drag. Its \<^verbatim>\<open>icon\<close> is a pointer that is null for a drag started without an icon
  surface.
\<close>

record wlr_drag =
  icon :: "wlr_drag_icon option"
  source :: nat

text \<open>
  \<^verbatim>\<open>wf_drag_icon\<close>: the wrapper around the protocol's icon. Of its base class, which is
  not in this file, the model keeps what \<^verbatim>\<open>is_mapped()\<close> answers and the \<^verbatim>\<open>output\<close>
  pointer. The constructor passes \<^verbatim>\<open>nullptr\<close> to the base class: the wrapper starts
  unmapped (it is mapped by the icon's map notification) and on no output. The
  constructor dereferences the icon it is given (it adds its listeners to the icon's
  events and stores itself in the icon's \<^verbatim>\<open>data\<close>) without testing it: on a null icon
  the program dereferences a null pointer, and the model has no result (\<open>None\<close>).
\<close>

record wf_drag_icon =
  wlr_icon :: wlr_drag_icon
  is_mapped :: bool
  icon_output :: "wayfire_output option"

definition wf_drag_icon_ctor :: "wlr_drag_icon option \<Rightarrow> wf_drag_icon option" where
  "wf_drag_icon_ctor ic =
     (case ic of
        None \<Rightarrow> None
      | Some i \<Rightarrow> Some \<lparr>wlr_icon = i, is_mapped = False, icon_output = None\<rparr>)"

record wlr_touch_point =
  touch_point_id :: int

text \<open>
  The seat's two serial checks are wlroots functions; they are parameters of the model.
  The touch check also yields the touch point when it succeeds.
\<close>

record wlr_seat =
  wlr_seat_validate_pointer_grab_serial :: "nat \<Rightarrow> 32 word \<Rightarrow> bool"
  wlr_seat_validate_touch_grab_serial :: "nat \<Rightarrow> 32 word \<Rightarrow> wlr_touch_point option"

datatype wlr_call =
    Wlr_seat_start_pointer_drag wlr_drag "32 word"
  | Wlr_seat_start_touch_drag wlr_drag "32 word" wlr_touch_point
  | Wlr_data_source_destroy nat

record wlr_seat_request_start_drag_event =
  drag :: wlr_drag
  origin :: nat
  serial :: "32 word"

record 'p core_t =
  drag_icon :: "wf_drag_icon option"
  released_icons :: "wf_drag_icon list"
  emitted :: "(string \<times> 'p option) list"
  current_seat :: wlr_seat
  wlr_calls :: "wlr_call list"
  debug_log :: "(string \<times> 32 word) list"
  cursor_position :: "int \<times> int"
  touch_position :: "int \<Rightarrow> int \<times> int"
  outputs :: "wayfire_output list"

definition emit_signal :: "string \<Rightarrow> 'p option \<Rightarrow> 'p core_t \<Rightarrow> 'p core_t" where
  "emit_signal name data core = core\<lparr>emitted := emitted core @ [(name, data)]\<rparr>"

text \<open>
  Assignment to the slot \<^verbatim>\<open>core->input->drag_icon\<close>, a \<^verbatim>\<open>std::unique_ptr\<close>: the wrapper
  held before, if any, is released.
\<close>

definition assign_drag_icon :: "wf_drag_icon option \<Rightarrow> 'p core_t \<Rightarrow> 'p core_t" where
  "assign_drag_icon p core =
     core\<lparr>drag_icon := p,
          released_icons := released_icons core @
            (case drag_icon core of None \<Rightarrow> [] | Some old \<Rightarrow> [old])\<rparr>"

section \<open>Drag and drop\<close>

text \<open>\<^verbatim>\<open>handle_drag_icon_destroy\<close>.\<close>

definition handle_drag_icon_destroy :: "'p core_t \<Rightarrow> 'p core_t" where
  "handle_drag_icon_destroy core = emit_signal ''drag-stopped'' None (assign_drag_icon None core)"

text \<open>
  \<^verbatim>\<open>handle_start_drag_cb\<close>. The wrapper is constructed before the slot is assigned and
  before the signal is emitted, so a drag without icon ends the handler in the
  constructor: the result is \<open>None\<close>, and otherwise the core afterwards.
\<close>

definition handle_start_drag_cb :: "wlr_drag \<Rightarrow> 'p core_t \<Rightarrow> 'p core_t option" where
  "handle_start_drag_cb d core =
     (case wf_drag_icon_ctor (icon d) of
        None \<Rightarrow> None
      | Some wrapper \<Rightarrow>
          Some (emit_signal ''drag-started'' None (assign_drag_icon (Some wrapper) core)))"

text \<open>\<^verbatim>\<open>handle_request_start_drag_cb\<close>.\<close>

definition handle_request_start_drag_cb ::
  "wlr_seat_request_start_drag_event \<Rightarrow> 'p core_t \<Rightarrow> 'p core_t" where
  "handle_request_start_drag_cb ev core =
     (let seat = current_seat core in
      if wlr_seat_validate_pointer_grab_serial seat (origin ev) (serial ev) then
        core\<lparr>wlr_calls := wlr_calls core @ [Wlr_seat_start_pointer_drag (drag ev) (serial ev)]\<rparr>
      else case wlr_seat_validate_touch_grab_serial seat (origin ev) (serial ev) of
        Some point \<Rightarrow>
          core\<lparr>wlr_calls := wlr_calls core @
                 [Wlr_seat_start_touch_drag (drag ev) (serial ev) point]\<rparr>
      | None \<Rightarrow>
          core\<lparr>debug_log := debug_log core @
                 [(''Ignoring start_drag request: could not validate pointer or touch serial'',
                   serial ev)],
               wlr_calls := wlr_calls core @ [Wlr_data_source_destroy (source (drag ev))]\<rparr>)"

text \<open>Whether a wlroots call starts a drag.\<close>

fun starts_drag :: "wlr_call \<Rightarrow> bool" where
  "starts_drag (Wlr_seat_start_pointer_drag _ _) = True"
| "starts_drag (Wlr_seat_start_touch_drag _ _ _) = True"
| "starts_drag (Wlr_data_source_destroy _) = False"

text \<open>
  The coordinates that \<^verbatim>\<open>get_output_position\<close> computes with are C \<^verbatim>\<open>int\<close>s of 32 bits.
  They are modelled as integers, and every addition and subtraction of the function is
  followed by the wrap-around of a 32-bit two's complement value: \<open>int32 v\<close> is the
  \<^verbatim>\<open>int\<close> that the machine holds for the exact result \<open>v\<close>, and \<open>is_int32 v\<close> says
  that \<open>v\<close> is such a value already.
\<close>

definition int32 :: "int \<Rightarrow> int" where
  "int32 v = (v + 2147483648) mod 4294967296 - 2147483648"

definition is_int32 :: "int \<Rightarrow> bool" where
  "is_int32 v = (- 2147483648 \<le> v \<and> v < 2147483648)"

text \<open>\<^verbatim>\<open>wf_drag_icon::get_output_position\<close>.\<close>

definition get_output_position :: "wf_drag_icon \<Rightarrow> 'p core_t \<Rightarrow> int \<times> int" where
  "get_output_position self core =
     (let pos = (if grab_type (wlr_icon self) = WLR_DRAG_GRAB_KEYBOARD_TOUCH
                 then touch_position core (touch_id (wlr_icon self))
                 else cursor_position core);
          (x0, y0) = pos;
          (x1, y1) = (if is_mapped self
                      then (int32 (x0 + sx (surface (wlr_icon self))),
                            int32 (y0 + sy (surface (wlr_icon self))))
                      else (x0, y0))
      in case icon_output self of
           Some out \<Rightarrow>
             (let og = get_layout_geometry out
              in (int32 (x1 - box_x og), int32 (y1 - box_y og)))
         | None \<Rightarrow> (x1, y1))"

text \<open>
  \<^verbatim>\<open>wf_drag_icon::damage\<close>: the body of the lambda, then the loop over all outputs.
\<close>

definition damage_output :: "wlr_box \<Rightarrow> wayfire_output \<Rightarrow> wayfire_output" where
  "damage_output box out =
     (let output_geometry = get_layout_geometry out in
      if box_intersects output_geometry box then
        (let local = box\<lparr>box_x := box_x box - box_x output_geometry,
                           box_y := box_y box - box_y output_geometry\<rparr>
         in out\<lparr>render_damage := render_damage out @ [damage_box_from_geometry_box out local]\<rparr>)
      else out)"

fun for_each_output ::
  "(wayfire_output \<Rightarrow> wayfire_output) \<Rightarrow> wayfire_output list \<Rightarrow> wayfire_output list" where
  "for_each_output f [] = []"
| "for_each_output f (out # outs) = f out # for_each_output f outs"

definition damage :: "wlr_box \<Rightarrow> wf_drag_icon \<Rightarrow> 'p core_t \<Rightarrow> 'p core_t" where
  "damage box self core =
     (if \<not> is_mapped self then core
      else core\<lparr>outputs := for_each_output (damage_output box) (outputs core)\<rparr>)"

section \<open>Switch devices\<close>

text \<open>
  The two wlroots enumerations are C \<^verbatim>\<open>enum\<close>s, hence integers; the event carries them as
  such. Their values are those of \<^verbatim>\<open>wlr/types/wlr_switch.h\<close>.
\<close>

definition WLR_SWITCH_TYPE_LID :: int where
  "WLR_SWITCH_TYPE_LID = 1"

definition WLR_SWITCH_TYPE_TABLET_MODE :: int where
  "WLR_SWITCH_TYPE_TABLET_MODE = 2"

definition WLR_SWITCH_STATE_OFF :: int where
  "WLR_SWITCH_STATE_OFF = 0"

definition WLR_SWITCH_STATE_ON :: int where
  "WLR_SWITCH_STATE_ON = 1"

record wlr_event_switch_toggle =
  switch_type :: int
  switch_state :: int

record 'd switch_signal =
  device :: "'d input_device_t"
  state :: bool

text \<open>
  \<^verbatim>\<open>wf_input_device_internal::handle_switched\<close>. The \<^verbatim>\<open>switch\<close> statement has no default
  branch, so \<^verbatim>\<open>event_name\<close> keeps the empty string it was constructed with; the call of
  \<^verbatim>\<open>emit_signal\<close> follows the \<^verbatim>\<open>switch\<close> and is made in every case.
\<close>

definition handle_switched ::
  "wlr_event_switch_toggle \<Rightarrow> 'd input_device_t \<Rightarrow> 'd switch_signal core_t \<Rightarrow>
   'd switch_signal core_t" where
  "handle_switched ev self core =
     (let data = \<lparr>device = self, state = (switch_state ev = WLR_SWITCH_STATE_ON)\<rparr>;
          event_name = (if switch_type ev = WLR_SWITCH_TYPE_TABLET_MODE then ''tablet-mode''
                        else if switch_type ev = WLR_SWITCH_TYPE_LID then ''lid-state''
                        else [])
      in emit_signal event_name (Some data) core)"

section \<open>Sample inputs\<close>

text \<open>
  Concrete devices, a concrete configuration and a concrete core, on which the theorems
  below are instantiated. Speeds are given as integers here.
\<close>

definition sample_libinput_touchpad :: "int libinput_device" where
  "sample_libinput_touchpad =
     \<lparr>send_events_mode = LIBINPUT_CONFIG_SEND_EVENTS_ENABLED,
      tap_finger_count = 3,
      click_default_method = LIBINPUT_CONFIG_CLICK_METHOD_BUTTON_AREAS,
      click_method = LIBINPUT_CONFIG_CLICK_METHOD_CLICKFINGER,
      scroll_default_method = LIBINPUT_CONFIG_SCROLL_2FG,
      scroll_method = LIBINPUT_CONFIG_SCROLL_EDGE,
      has_natural_scroll = 1,
      natural_scroll_enabled = True,
      accel_speed = 0,
      tap_enabled = LIBINPUT_CONFIG_TAP_DISABLED,
      dwt_enabled = LIBINPUT_CONFIG_DWT_ENABLED,
      calls = []\<rparr>"

definition sample_touchpad :: "int input_device_t" where
  "sample_touchpad =
     \<lparr>handle = \<lparr>device_type = WLR_INPUT_DEVICE_POINTER,
                 libinput_handle = Some sample_libinput_touchpad\<rparr>\<rparr>"

definition sample_keyboard :: "int input_device_t" where
  "sample_keyboard =
     \<lparr>handle = \<lparr>device_type = WLR_INPUT_DEVICE_KEYBOARD, libinput_handle = None\<rparr>\<rparr>"

definition sample_switch :: "int input_device_t" where
  "sample_switch =
     \<lparr>handle = \<lparr>device_type = WLR_INPUT_DEVICE_SWITCH, libinput_handle = None\<rparr>\<rparr>"

definition sample_accessors :: "int option_accessors" where
  "sample_accessors =
     \<lparr>as_cached_int = (\<lambda>s. if s = ''1'' then 1 else 0),
      as_cached_double = (\<lambda>s. 0)\<rparr>"

definition sample_config :: config_t where
  "sample_config = load (\<lambda>section. Map.empty)"

definition sample_seat :: wlr_seat where
  "sample_seat =
     \<lparr>wlr_seat_validate_pointer_grab_serial = (\<lambda>surface s. surface = 1 \<and> s = 41),
      wlr_seat_validate_touch_grab_serial =
        (\<lambda>surface s. if surface = 1 \<and> s = 42 then Some \<lparr>touch_point_id = 0\<rparr> else None)\<rparr>"

definition sample_output_left :: wayfire_output where
  "sample_output_left =
     \<lparr>output_id = 0,
      get_layout_geometry = \<lparr>box_x = 100, box_y = 0, box_width = 800, box_height = 600\<rparr>,
      damage_box_from_geometry_box = (\<lambda>b. b),
      render_damage = []\<rparr>"

definition sample_output_right :: wayfire_output where
  "sample_output_right =
     \<lparr>output_id = 1,
      get_layout_geometry = \<lparr>box_x = 800, box_y = 0, box_width = 800, box_height = 600\<rparr>,
      damage_box_from_geometry_box = (\<lambda>b. b),
      render_damage = []\<rparr>"

definition sample_core :: "'p core_t" where
  "sample_core =
     \<lparr>drag_icon = None,
      released_icons = [],
      emitted = [],
      current_seat = sample_seat,
      wlr_calls = [],
      debug_log = [],
      cursor_position = (150, 40),
      touch_position = (\<lambda>i. if i = 0 then (30, 20) else (0, 0)),
      outputs = [sample_output_left, sample_output_right]\<rparr>"

definition sample_wlr_icon :: wlr_drag_icon where
  "sample_wlr_icon =
     \<lparr>icon_id = 7, surface = \<lparr>sx = 5, sy = 5\<rparr>,
      grab_type = WLR_DRAG_GRAB_KEYBOARD_POINTER, touch_id = 0\<rparr>"

definition sample_drag :: wlr_drag where
  "sample_drag = \<lparr>icon = Some sample_wlr_icon, source = 3\<rparr>"


section \<open>Enabling and disabling devices\<close>

lemma set_enabled_not_libinput:
  "\<not> wlr_input_device_is_libinput (handle self) \<Longrightarrow> set_enabled b self = (b, self)"
  by (simp add: set_enabled_def is_enabled_def wlr_input_device_is_libinput_def)

lemma set_enabled_calls_not_libinput:
  "\<not> wlr_input_device_is_libinput (handle self) \<Longrightarrow> set_enabled_calls bs self = self"
  by (induction bs) (simp_all add: set_enabled_not_libinput)

lemma is_enabled_not_libinput:
  "\<not> wlr_input_device_is_libinput (handle self) \<Longrightarrow> is_enabled self"
  by (simp add: is_enabled_def wlr_input_device_is_libinput_def)

text \<open>
  C3, as stated, asks \<^verbatim>\<open>set_enabled\<close> to return false on a device without libinput for
  every argument. The comparison with the current state comes before the libinput test,
  and such a device always counts as enabled: \<^verbatim>\<open>set_enabled(true)\<close> on a keyboard
  returns true.
\<close>

theorem set_enabled_true_without_libinput_counterexample:
  "\<not> wlr_input_device_is_libinput (handle sample_keyboard) \<and>
   fst (set_enabled True sample_keyboard) \<noteq> False"
  by (simp add: set_enabled_def is_enabled_def wlr_input_device_is_libinput_def
      sample_keyboard_def)

text \<open>
  C3, amended: on a device without libinput, after any sequence of \<^verbatim>\<open>set_enabled\<close> calls,
  \<^verbatim>\<open>is_enabled\<close> returns true, \<^verbatim>\<open>set_enabled(false)\<close> returns false and
  \<^verbatim>\<open>set_enabled(true)\<close> returns true (the requested state is the current one); no call
  changes the device or reaches a provider.
\<close>

theorem enable_disable_without_libinput:
  assumes "\<not> wlr_input_device_is_libinput (handle self)"
  shows "is_enabled (set_enabled_calls bs self) \<and>
         fst (set_enabled False (set_enabled_calls bs self)) = False \<and>
         fst (set_enabled True (set_enabled_calls bs self)) = True \<and>
         snd (set_enabled b (set_enabled_calls bs self)) = set_enabled_calls bs self \<and>
         provider_calls (set_enabled_calls bs self) = []"
proof -
  have same: "set_enabled_calls bs self = self"
    using assms by (rule set_enabled_calls_not_libinput)
  have "provider_calls self = []"
    using assms by (simp add: provider_calls_def wlr_input_device_is_libinput_def)
  then show ?thesis
    using assms same by (simp add: set_enabled_not_libinput is_enabled_not_libinput)
qed

theorem enable_disable_without_libinput_witness:
  "\<not> wlr_input_device_is_libinput (handle sample_keyboard) \<and>
   is_enabled (set_enabled_calls [False, True, False] sample_keyboard) \<and>
   fst (set_enabled False (set_enabled_calls [False, True, False] sample_keyboard)) = False \<and>
   fst (set_enabled True (set_enabled_calls [False, True, False] sample_keyboard)) = True"
  using enable_disable_without_libinput [of sample_keyboard "[False, True, False]" True]
  by (simp add: wlr_input_device_is_libinput_def sample_keyboard_def)

text \<open>
  C8: on a libinput device, \<^verbatim>\<open>set_enabled\<close> with the value that \<^verbatim>\<open>is_enabled\<close> reports
  returns true and leaves the device, its list of provider calls included, as it was.
  For any argument the call returns true, and the provider's mode setter is called once
  exactly when the argument differs from the current state.
\<close>

theorem set_enabled_current_state:
  assumes "wlr_input_device_is_libinput (handle self)"
  shows "set_enabled (is_enabled self) self = (True, self) \<and>
         fst (set_enabled b self) = True \<and>
         provider_calls (snd (set_enabled b self)) =
           provider_calls self @
           (if b = is_enabled self then []
            else [Send_events_set_mode
                    (if b then LIBINPUT_CONFIG_SEND_EVENTS_ENABLED
                     else LIBINPUT_CONFIG_SEND_EVENTS_DISABLED)])"
proof -
  obtain dev where dev: "libinput_handle (handle self) = Some dev"
    using assms by (auto simp: wlr_input_device_is_libinput_def)
  show ?thesis
    using dev
    by (simp add: set_enabled_def provider_calls_def
        libinput_device_config_send_events_set_mode_def)
qed

theorem set_enabled_current_state_witness:
  "wlr_input_device_is_libinput (handle sample_touchpad) \<and>
   is_enabled sample_touchpad \<and>
   set_enabled True sample_touchpad = (True, sample_touchpad) \<and>
   provider_calls (snd (set_enabled True sample_touchpad)) = [] \<and>
   provider_calls (snd (set_enabled False sample_touchpad)) =
     [Send_events_set_mode LIBINPUT_CONFIG_SEND_EVENTS_DISABLED]"
  using set_enabled_current_state [of sample_touchpad True]
    set_enabled_current_state [of sample_touchpad False]
  by (simp add: wlr_input_device_is_libinput_def sample_touchpad_def is_enabled_def
      provider_calls_def sample_libinput_touchpad_def
      libinput_device_config_send_events_get_mode_def)

section \<open>Applying the configuration: click and scroll methods\<close>

lemma click_set_calls_append:
  "click_set_calls (cs @ ds) = click_set_calls cs @ click_set_calls ds"
  by (induction cs rule: click_set_calls.induct) simp_all

lemma scroll_set_calls_append:
  "scroll_set_calls (cs @ ds) = scroll_set_calls cs @ scroll_set_calls ds"
  by (induction cs rule: scroll_set_calls.induct) simp_all

text \<open>What the click-method step does, by the configured text.\<close>

lemma update_click_method_calls:
  "calls (update_click_method config dev) =
     calls dev @
     (if touchpad_click_method config = ''default'' then [Click_set_method (click_default_method dev)]
      else if touchpad_click_method config = ''none'' then [Click_set_method LIBINPUT_CONFIG_CLICK_METHOD_NONE]
      else if touchpad_click_method config = ''button-areas'' then [Click_set_method LIBINPUT_CONFIG_CLICK_METHOD_BUTTON_AREAS]
      else if touchpad_click_method config = ''clickfinger'' then [Click_set_method LIBINPUT_CONFIG_CLICK_METHOD_CLICKFINGER]
      else [])"
  by (simp add: update_click_method_def libinput_device_config_click_set_method_def)

lemma update_click_method_field:
  "click_method (update_click_method config dev) =
     (if touchpad_click_method config = ''default'' then click_default_method dev
      else if touchpad_click_method config = ''none'' then LIBINPUT_CONFIG_CLICK_METHOD_NONE
      else if touchpad_click_method config = ''button-areas'' then LIBINPUT_CONFIG_CLICK_METHOD_BUTTON_AREAS
      else if touchpad_click_method config = ''clickfinger'' then LIBINPUT_CONFIG_CLICK_METHOD_CLICKFINGER
      else click_method dev)"
  by (simp add: update_click_method_def libinput_device_config_click_set_method_def)

lemma update_click_method_others:
  "scroll_method (update_click_method config dev) = scroll_method dev"
  "scroll_default_method (update_click_method config dev) = scroll_default_method dev"
  "has_natural_scroll (update_click_method config dev) = has_natural_scroll dev"
  by (simp_all add: update_click_method_def libinput_device_config_click_set_method_def)

lemma update_scroll_method_calls:
  "calls (update_scroll_method config dev) =
     calls dev @
     (if touchpad_scroll_method config = ''default'' then [Scroll_set_method (scroll_default_method dev)]
      else if touchpad_scroll_method config = ''none'' then [Scroll_set_method LIBINPUT_CONFIG_SCROLL_NO_SCROLL]
      else if touchpad_scroll_method config = ''two-finger'' then [Scroll_set_method LIBINPUT_CONFIG_SCROLL_2FG]
      else if touchpad_scroll_method config = ''edge'' then [Scroll_set_method LIBINPUT_CONFIG_SCROLL_EDGE]
      else if touchpad_scroll_method config = ''on-button-down'' then [Scroll_set_method LIBINPUT_CONFIG_SCROLL_ON_BUTTON_DOWN]
      else [])"
  by (simp add: update_scroll_method_def libinput_device_config_scroll_set_method_def)

lemma update_scroll_method_field:
  "scroll_method (update_scroll_method config dev) =
     (if touchpad_scroll_method config = ''default'' then scroll_default_method dev
      else if touchpad_scroll_method config = ''none'' then LIBINPUT_CONFIG_SCROLL_NO_SCROLL
      else if touchpad_scroll_method config = ''two-finger'' then LIBINPUT_CONFIG_SCROLL_2FG
      else if touchpad_scroll_method config = ''edge'' then LIBINPUT_CONFIG_SCROLL_EDGE
      else if touchpad_scroll_method config = ''on-button-down'' then LIBINPUT_CONFIG_SCROLL_ON_BUTTON_DOWN
      else scroll_method dev)"
  by (simp add: update_scroll_method_def libinput_device_config_scroll_set_method_def)

lemma update_scroll_method_others:
  "click_method (update_scroll_method config dev) = click_method dev"
  "has_natural_scroll (update_scroll_method config dev) = has_natural_scroll dev"
  by (simp_all add: update_scroll_method_def libinput_device_config_scroll_set_method_def)

lemma update_natural_scroll_calls:
  "calls (update_natural_scroll acc config dev) =
     calls dev @
     (if has_natural_scroll dev > 0
      then [Scroll_set_natural_scroll_enabled
              (as_cached_int acc (touchpad_natural_scroll_enabled config) \<noteq> 0)]
      else [])"
  by (simp add: update_natural_scroll_def
      libinput_device_config_scroll_set_natural_scroll_enabled_def)

lemma update_natural_scroll_others:
  "click_method (update_natural_scroll acc config dev) = click_method dev"
  "scroll_method (update_natural_scroll acc config dev) = scroll_method dev"
  by (simp_all add: update_natural_scroll_def
      libinput_device_config_scroll_set_natural_scroll_enabled_def)

text \<open>The whole list of calls a touchpad receives, in the order of the source.\<close>

lemma update_touchpad_calls:
  "calls (update_touchpad acc config dev) =
     calls dev @
     [Accel_set_speed (as_cached_double acc (touchpad_cursor_speed config)),
      Tap_set_enabled (if as_cached_int acc (touchpad_tap_enabled config) \<noteq> 0
                       then LIBINPUT_CONFIG_TAP_ENABLED else LIBINPUT_CONFIG_TAP_DISABLED)] @
     (if touchpad_click_method config = ''default'' then [Click_set_method (click_default_method dev)]
      else if touchpad_click_method config = ''none'' then [Click_set_method LIBINPUT_CONFIG_CLICK_METHOD_NONE]
      else if touchpad_click_method config = ''button-areas'' then [Click_set_method LIBINPUT_CONFIG_CLICK_METHOD_BUTTON_AREAS]
      else if touchpad_click_method config = ''clickfinger'' then [Click_set_method LIBINPUT_CONFIG_CLICK_METHOD_CLICKFINGER]
      else []) @
     (if touchpad_scroll_method config = ''default'' then [Scroll_set_method (scroll_default_method dev)]
      else if touchpad_scroll_method config = ''none'' then [Scroll_set_method LIBINPUT_CONFIG_SCROLL_NO_SCROLL]
      else if touchpad_scroll_method config = ''two-finger'' then [Scroll_set_method LIBINPUT_CONFIG_SCROLL_2FG]
      else if touchpad_scroll_method config = ''edge'' then [Scroll_set_method LIBINPUT_CONFIG_SCROLL_EDGE]
      else if touchpad_scroll_method config = ''on-button-down'' then [Scroll_set_method LIBINPUT_CONFIG_SCROLL_ON_BUTTON_DOWN]
      else []) @
     [Dwt_set_enabled (if as_cached_int acc (touchpad_dwt_enabled config) \<noteq> 0
                       then LIBINPUT_CONFIG_DWT_ENABLED else LIBINPUT_CONFIG_DWT_DISABLED),
      Send_events_set_mode (if as_cached_int acc (touchpad_dwmouse_enabled config) \<noteq> 0
                            then LIBINPUT_CONFIG_SEND_EVENTS_DISABLED_ON_EXTERNAL_MOUSE
                            else LIBINPUT_CONFIG_SEND_EVENTS_ENABLED)] @
     (if has_natural_scroll dev > 0
      then [Scroll_set_natural_scroll_enabled
              (as_cached_int acc (touchpad_natural_scroll_enabled config) \<noteq> 0)]
      else [])"
  unfolding update_touchpad_def Let_def update_natural_scroll_calls
  apply (simp only: libinput_device_config_send_events_set_mode_def
      libinput_device_config_dwt_set_enabled_def libinput_device_config_accel_set_speed_def
      libinput_device_config_tap_set_enabled_def)
  apply (simp add: update_scroll_method_calls update_click_method_calls
      update_scroll_method_others update_click_method_others del: One_nat_def)
  done


lemma update_touchpad_click_method:
  "click_method (update_touchpad acc config dev) =
     (if touchpad_click_method config = ''default'' then click_default_method dev
      else if touchpad_click_method config = ''none'' then LIBINPUT_CONFIG_CLICK_METHOD_NONE
      else if touchpad_click_method config = ''button-areas'' then LIBINPUT_CONFIG_CLICK_METHOD_BUTTON_AREAS
      else if touchpad_click_method config = ''clickfinger'' then LIBINPUT_CONFIG_CLICK_METHOD_CLICKFINGER
      else click_method dev)"
  unfolding update_touchpad_def Let_def update_natural_scroll_others
  apply (simp only: libinput_device_config_send_events_set_mode_def
      libinput_device_config_dwt_set_enabled_def libinput_device_config_accel_set_speed_def
      libinput_device_config_tap_set_enabled_def)
  apply (simp add: update_scroll_method_others update_click_method_field del: One_nat_def)
  done

lemma update_touchpad_scroll_method:
  "scroll_method (update_touchpad acc config dev) =
     (if touchpad_scroll_method config = ''default'' then scroll_default_method dev
      else if touchpad_scroll_method config = ''none'' then LIBINPUT_CONFIG_SCROLL_NO_SCROLL
      else if touchpad_scroll_method config = ''two-finger'' then LIBINPUT_CONFIG_SCROLL_2FG
      else if touchpad_scroll_method config = ''edge'' then LIBINPUT_CONFIG_SCROLL_EDGE
      else if touchpad_scroll_method config = ''on-button-down'' then LIBINPUT_CONFIG_SCROLL_ON_BUTTON_DOWN
      else scroll_method dev)"
  unfolding update_touchpad_def Let_def update_natural_scroll_others
  apply (simp only: libinput_device_config_send_events_set_mode_def
      libinput_device_config_dwt_set_enabled_def libinput_device_config_accel_set_speed_def
      libinput_device_config_tap_set_enabled_def)
  apply (simp add: update_scroll_method_field update_click_method_others del: One_nat_def)
  done

lemma update_options_touchpad:
  assumes "libinput_handle (handle self) = Some dev" and "0 < tap_finger_count dev"
  shows "libinput_handle (handle (update_options acc config self)) =
           Some (update_touchpad acc config dev)"
  using assms by (simp add: update_options_def get_wlr_handle_def)

text \<open>
  C5: on a touchpad (a libinput device with a positive tap finger count),
  \<^verbatim>\<open>update_options\<close> calls the click-method setter once with the provider's default
  method for the text \<^verbatim>\<open>default\<close>, once with the explicit method for \<^verbatim>\<open>none\<close>,
  \<^verbatim>\<open>button-areas\<close> and \<^verbatim>\<open>clickfinger\<close>, and not at all for any other text, which leaves
  the click method as it was; the scroll method is treated the same way over \<^verbatim>\<open>default\<close>,
  \<^verbatim>\<open>none\<close>, \<^verbatim>\<open>two-finger\<close>, \<^verbatim>\<open>edge\<close> and \<^verbatim>\<open>on-button-down\<close>.
\<close>

theorem update_options_touchpad_methods:
  assumes "libinput_handle (handle self) = Some dev" and "0 < tap_finger_count dev"
  shows "case libinput_handle (handle (update_options acc config self)) of
           None \<Rightarrow> False
         | Some dev' \<Rightarrow>
             click_set_calls (calls dev') =
               click_set_calls (calls dev) @
               (if touchpad_click_method config = ''default'' then [click_default_method dev]
                else if touchpad_click_method config = ''none''
                  then [LIBINPUT_CONFIG_CLICK_METHOD_NONE]
                else if touchpad_click_method config = ''button-areas''
                  then [LIBINPUT_CONFIG_CLICK_METHOD_BUTTON_AREAS]
                else if touchpad_click_method config = ''clickfinger''
                  then [LIBINPUT_CONFIG_CLICK_METHOD_CLICKFINGER]
                else []) \<and>
             click_method dev' =
               (if touchpad_click_method config = ''default'' then click_default_method dev
                else if touchpad_click_method config = ''none''
                  then LIBINPUT_CONFIG_CLICK_METHOD_NONE
                else if touchpad_click_method config = ''button-areas''
                  then LIBINPUT_CONFIG_CLICK_METHOD_BUTTON_AREAS
                else if touchpad_click_method config = ''clickfinger''
                  then LIBINPUT_CONFIG_CLICK_METHOD_CLICKFINGER
                else click_method dev) \<and>
             scroll_set_calls (calls dev') =
               scroll_set_calls (calls dev) @
               (if touchpad_scroll_method config = ''default'' then [scroll_default_method dev]
                else if touchpad_scroll_method config = ''none''
                  then [LIBINPUT_CONFIG_SCROLL_NO_SCROLL]
                else if touchpad_scroll_method config = ''two-finger''
                  then [LIBINPUT_CONFIG_SCROLL_2FG]
                else if touchpad_scroll_method config = ''edge''
                  then [LIBINPUT_CONFIG_SCROLL_EDGE]
                else if touchpad_scroll_method config = ''on-button-down''
                  then [LIBINPUT_CONFIG_SCROLL_ON_BUTTON_DOWN]
                else []) \<and>
             scroll_method dev' =
               (if touchpad_scroll_method config = ''default'' then scroll_default_method dev
                else if touchpad_scroll_method config = ''none''
                  then LIBINPUT_CONFIG_SCROLL_NO_SCROLL
                else if touchpad_scroll_method config = ''two-finger''
                  then LIBINPUT_CONFIG_SCROLL_2FG
                else if touchpad_scroll_method config = ''edge''
                  then LIBINPUT_CONFIG_SCROLL_EDGE
                else if touchpad_scroll_method config = ''on-button-down''
                  then LIBINPUT_CONFIG_SCROLL_ON_BUTTON_DOWN
                else scroll_method dev)"
proof -
  have click: "click_set_calls (calls (update_touchpad acc config dev)) =
      click_set_calls (calls dev) @
      (if touchpad_click_method config = ''default'' then [click_default_method dev]
       else if touchpad_click_method config = ''none''
         then [LIBINPUT_CONFIG_CLICK_METHOD_NONE]
       else if touchpad_click_method config = ''button-areas''
         then [LIBINPUT_CONFIG_CLICK_METHOD_BUTTON_AREAS]
       else if touchpad_click_method config = ''clickfinger''
         then [LIBINPUT_CONFIG_CLICK_METHOD_CLICKFINGER]
       else [])"
    by (simp add: update_touchpad_calls click_set_calls_append del: One_nat_def)
  have scroll: "scroll_set_calls (calls (update_touchpad acc config dev)) =
      scroll_set_calls (calls dev) @
      (if touchpad_scroll_method config = ''default'' then [scroll_default_method dev]
       else if touchpad_scroll_method config = ''none''
         then [LIBINPUT_CONFIG_SCROLL_NO_SCROLL]
       else if touchpad_scroll_method config = ''two-finger''
         then [LIBINPUT_CONFIG_SCROLL_2FG]
       else if touchpad_scroll_method config = ''edge''
         then [LIBINPUT_CONFIG_SCROLL_EDGE]
       else if touchpad_scroll_method config = ''on-button-down''
         then [LIBINPUT_CONFIG_SCROLL_ON_BUTTON_DOWN]
       else [])"
    by (simp add: update_touchpad_calls scroll_set_calls_append del: One_nat_def)
  show ?thesis
    unfolding update_options_touchpad [OF assms] option.case
    using click scroll update_touchpad_click_method [of acc config dev]
      update_touchpad_scroll_method [of acc config dev]
    by (simp only: simp_thms)
qed

theorem update_options_touchpad_methods_witness:
  "libinput_handle (handle sample_touchpad) = Some sample_libinput_touchpad \<and>
   0 < tap_finger_count sample_libinput_touchpad \<and>
   (case libinput_handle (handle (update_options sample_accessors
            (sample_config\<lparr>touchpad_click_method := ''anything-else'',
                            touchpad_scroll_method := ''on-button-down''\<rparr>) sample_touchpad)) of
      None \<Rightarrow> False
    | Some dev' \<Rightarrow>
        click_set_calls (calls dev') = [] \<and>
        click_method dev' = LIBINPUT_CONFIG_CLICK_METHOD_CLICKFINGER \<and>
        scroll_set_calls (calls dev') = [LIBINPUT_CONFIG_SCROLL_ON_BUTTON_DOWN] \<and>
        scroll_method dev' = LIBINPUT_CONFIG_SCROLL_ON_BUTTON_DOWN)"
  using update_options_touchpad_methods
    [where self = sample_touchpad and dev = sample_libinput_touchpad
       and acc = sample_accessors
       and config = "sample_config\<lparr>touchpad_click_method := ''anything-else'',
                      touchpad_scroll_method := ''on-button-down''\<rparr>"]
  by (simp add: sample_touchpad_def sample_libinput_touchpad_def split: option.splits)

section \<open>Loading the configuration\<close>

lemma load_absent:
  assumes "\<forall>name \<in> set input_option_names. config ''input'' name = None"
  shows "load config =
     \<lparr>mouse_cursor_speed = ''0'', touchpad_cursor_speed = ''0'', touchpad_tap_enabled = ''1'',
      touchpad_click_method = ''default'', touchpad_scroll_method = ''default'',
      touchpad_dwt_enabled = ''0'', touchpad_dwmouse_enabled = ''0'',
      touchpad_natural_scroll_enabled = ''0''\<rparr>"
  using assms by (simp add: load_def get_option_def input_option_names_def)

lemma load_agree:
  assumes "\<forall>name \<in> set input_option_names. config ''input'' name = config' ''input'' name"
  shows "load config = load config'"
  using assms by (simp add: load_def get_option_def input_option_names_def Let_def)

lemma load_present:
  assumes "map (config ''input'') input_option_names =
           [Some v1, Some v2, Some v3, Some v4, Some v5, Some v6, Some v7, Some v8]"
  shows "load config =
     \<lparr>mouse_cursor_speed = v1, touchpad_cursor_speed = v2, touchpad_tap_enabled = v3,
      touchpad_click_method = v4, touchpad_scroll_method = v5,
      touchpad_dwt_enabled = v6, touchpad_dwmouse_enabled = v7,
      touchpad_natural_scroll_enabled = v8\<rparr>"
  using assms by (simp add: load_def get_option_def input_option_names_def)

lemma default_touchpad_calls:
  assumes "as_cached_int acc ''1'' \<noteq> 0" and "as_cached_int acc ''0'' = 0"
  shows "calls (update_touchpad acc
           \<lparr>mouse_cursor_speed = ''0'', touchpad_cursor_speed = ''0'',
            touchpad_tap_enabled = ''1'', touchpad_click_method = ''default'',
            touchpad_scroll_method = ''default'', touchpad_dwt_enabled = ''0'',
            touchpad_dwmouse_enabled = ''0'', touchpad_natural_scroll_enabled = ''0''\<rparr> dev) =
         calls dev @
         [Accel_set_speed (as_cached_double acc ''0''),
          Tap_set_enabled LIBINPUT_CONFIG_TAP_ENABLED,
          Click_set_method (click_default_method dev),
          Scroll_set_method (scroll_default_method dev),
          Dwt_set_enabled LIBINPUT_CONFIG_DWT_DISABLED,
          Send_events_set_mode LIBINPUT_CONFIG_SEND_EVENTS_ENABLED] @
         (if 0 < has_natural_scroll dev then [Scroll_set_natural_scroll_enabled False] else [])"
  using assms by (simp add: update_touchpad_calls del: One_nat_def)

lemma load_each:
  "load config =
     \<lparr>mouse_cursor_speed =
        (case config ''input'' ''mouse_cursor_speed'' of None \<Rightarrow> ''0'' | Some v \<Rightarrow> v),
      touchpad_cursor_speed =
        (case config ''input'' ''touchpad_cursor_speed'' of None \<Rightarrow> ''0'' | Some v \<Rightarrow> v),
      touchpad_tap_enabled =
        (case config ''input'' ''tap_to_click'' of None \<Rightarrow> ''1'' | Some v \<Rightarrow> v),
      touchpad_click_method =
        (case config ''input'' ''click_method'' of None \<Rightarrow> ''default'' | Some v \<Rightarrow> v),
      touchpad_scroll_method =
        (case config ''input'' ''scroll_method'' of None \<Rightarrow> ''default'' | Some v \<Rightarrow> v),
      touchpad_dwt_enabled =
        (case config ''input'' ''disable_while_typing'' of None \<Rightarrow> ''0'' | Some v \<Rightarrow> v),
      touchpad_dwmouse_enabled =
        (case config ''input'' ''disable_touchpad_while_mouse'' of
           None \<Rightarrow> ''0'' | Some v \<Rightarrow> v),
      touchpad_natural_scroll_enabled =
        (case config ''input'' ''natural_scroll'' of None \<Rightarrow> ''0'' | Some v \<Rightarrow> v)\<rparr>"
  by (simp add: load_def get_option_def Let_def)

text \<open>
  C9: \<^verbatim>\<open>load\<close> asks the section \<^verbatim>\<open>input\<close>, and no other, for eight options of distinct
  names. Each option on its own is taken from the section when the section has it and
  otherwise takes its default text, whatever the other seven do: \<^verbatim>\<open>0\<close> for
  \<^verbatim>\<open>mouse_cursor_speed\<close>, \<^verbatim>\<open>touchpad_cursor_speed\<close>, \<^verbatim>\<open>disable_while_typing\<close>,
  \<^verbatim>\<open>disable_touchpad_while_mouse\<close> and \<^verbatim>\<open>natural_scroll\<close>, \<^verbatim>\<open>1\<close> for \<^verbatim>\<open>tap_to_click\<close>,
  \<^verbatim>\<open>default\<close> for \<^verbatim>\<open>click_method\<close> and \<^verbatim>\<open>scroll_method\<close>. Nothing else of the
  configuration has any influence. With integer accessors that read \<^verbatim>\<open>1\<close> as non-zero
  and \<^verbatim>\<open>0\<close> as zero, the defaults configure a touchpad with speed \<^verbatim>\<open>0\<close>, tapping
  enabled, the provider's default click and scroll methods, disable-while-typing off,
  events not disabled by an external mouse and natural scrolling off.
\<close>

theorem load_input_options:
  "length input_option_names = 8 \<and> distinct input_option_names \<and>
   load config =
     \<lparr>mouse_cursor_speed =
        (case config ''input'' ''mouse_cursor_speed'' of None \<Rightarrow> ''0'' | Some v \<Rightarrow> v),
      touchpad_cursor_speed =
        (case config ''input'' ''touchpad_cursor_speed'' of None \<Rightarrow> ''0'' | Some v \<Rightarrow> v),
      touchpad_tap_enabled =
        (case config ''input'' ''tap_to_click'' of None \<Rightarrow> ''1'' | Some v \<Rightarrow> v),
      touchpad_click_method =
        (case config ''input'' ''click_method'' of None \<Rightarrow> ''default'' | Some v \<Rightarrow> v),
      touchpad_scroll_method =
        (case config ''input'' ''scroll_method'' of None \<Rightarrow> ''default'' | Some v \<Rightarrow> v),
      touchpad_dwt_enabled =
        (case config ''input'' ''disable_while_typing'' of None \<Rightarrow> ''0'' | Some v \<Rightarrow> v),
      touchpad_dwmouse_enabled =
        (case config ''input'' ''disable_touchpad_while_mouse'' of
           None \<Rightarrow> ''0'' | Some v \<Rightarrow> v),
      touchpad_natural_scroll_enabled =
        (case config ''input'' ''natural_scroll'' of None \<Rightarrow> ''0'' | Some v \<Rightarrow> v)\<rparr> \<and>
   ((\<forall>name \<in> set input_option_names. config ''input'' name = None) \<longrightarrow>
      load config =
        \<lparr>mouse_cursor_speed = ''0'', touchpad_cursor_speed = ''0'',
         touchpad_tap_enabled = ''1'', touchpad_click_method = ''default'',
         touchpad_scroll_method = ''default'', touchpad_dwt_enabled = ''0'',
         touchpad_dwmouse_enabled = ''0'', touchpad_natural_scroll_enabled = ''0''\<rparr>) \<and>
   ((\<forall>name \<in> set input_option_names. config ''input'' name = config' ''input'' name) \<longrightarrow>
      load config = load config') \<and>
   (map (config ''input'') input_option_names =
      [Some v1, Some v2, Some v3, Some v4, Some v5, Some v6, Some v7, Some v8] \<longrightarrow>
      load config =
        \<lparr>mouse_cursor_speed = v1, touchpad_cursor_speed = v2, touchpad_tap_enabled = v3,
         touchpad_click_method = v4, touchpad_scroll_method = v5,
         touchpad_dwt_enabled = v6, touchpad_dwmouse_enabled = v7,
         touchpad_natural_scroll_enabled = v8\<rparr>) \<and>
   ((\<forall>name \<in> set input_option_names. config ''input'' name = None) \<and>
    as_cached_int acc ''1'' \<noteq> 0 \<and> as_cached_int acc ''0'' = 0 \<longrightarrow>
      calls (update_touchpad acc (load config) dev) =
        calls dev @
        [Accel_set_speed (as_cached_double acc ''0''),
         Tap_set_enabled LIBINPUT_CONFIG_TAP_ENABLED,
         Click_set_method (click_default_method dev),
         Scroll_set_method (scroll_default_method dev),
         Dwt_set_enabled LIBINPUT_CONFIG_DWT_DISABLED,
         Send_events_set_mode LIBINPUT_CONFIG_SEND_EVENTS_ENABLED] @
        (if 0 < has_natural_scroll dev then [Scroll_set_natural_scroll_enabled False] else []))"
proof -
  have names: "length input_option_names = 8 \<and> distinct input_option_names"
    by (simp add: input_option_names_def)
  have defaults: "calls (update_touchpad acc (load config) dev) =
        calls dev @
        [Accel_set_speed (as_cached_double acc ''0''),
         Tap_set_enabled LIBINPUT_CONFIG_TAP_ENABLED,
         Click_set_method (click_default_method dev),
         Scroll_set_method (scroll_default_method dev),
         Dwt_set_enabled LIBINPUT_CONFIG_DWT_DISABLED,
         Send_events_set_mode LIBINPUT_CONFIG_SEND_EVENTS_ENABLED] @
        (if 0 < has_natural_scroll dev then [Scroll_set_natural_scroll_enabled False] else [])"
    if "\<forall>name \<in> set input_option_names. config ''input'' name = None"
      and "as_cached_int acc ''1'' \<noteq> 0" and "as_cached_int acc ''0'' = 0"
    unfolding load_absent [of config, OF that(1)] using that(2,3) by (rule default_touchpad_calls)
  show ?thesis
    using names load_each [of config] load_absent [of config] load_agree [of config config']
      load_present [of config v1 v2 v3 v4 v5 v6 v7 v8] defaults
    by blast
qed

theorem load_input_options_witness:
  "load (\<lambda>section. Map.empty) =
     \<lparr>mouse_cursor_speed = ''0'', touchpad_cursor_speed = ''0'',
      touchpad_tap_enabled = ''1'', touchpad_click_method = ''default'',
      touchpad_scroll_method = ''default'', touchpad_dwt_enabled = ''0'',
      touchpad_dwmouse_enabled = ''0'', touchpad_natural_scroll_enabled = ''0''\<rparr> \<and>
   load ((\<lambda>section. Map.empty)(''input'' := [''tap_to_click'' \<mapsto> ''0''])) =
     \<lparr>mouse_cursor_speed = ''0'', touchpad_cursor_speed = ''0'',
      touchpad_tap_enabled = ''0'', touchpad_click_method = ''default'',
      touchpad_scroll_method = ''default'', touchpad_dwt_enabled = ''0'',
      touchpad_dwmouse_enabled = ''0'', touchpad_natural_scroll_enabled = ''0''\<rparr> \<and>
   load (\<lambda>section. Map.empty) =
     load ((\<lambda>section. Map.empty)
             (''core'' := [''tap_to_click'' \<mapsto> ''0''],
              ''input'' := [''xkb_layout'' \<mapsto> ''us''])) \<and>
   load ((\<lambda>section. Map.empty)
           (''input'' := [''mouse_cursor_speed'' \<mapsto> ''0.5'',
                          ''touchpad_cursor_speed'' \<mapsto> ''-0.25'',
                          ''tap_to_click'' \<mapsto> ''0'',
                          ''click_method'' \<mapsto> ''clickfinger'',
                          ''scroll_method'' \<mapsto> ''edge'',
                          ''disable_while_typing'' \<mapsto> ''1'',
                          ''disable_touchpad_while_mouse'' \<mapsto> ''1'',
                          ''natural_scroll'' \<mapsto> ''1''])) =
     \<lparr>mouse_cursor_speed = ''0.5'', touchpad_cursor_speed = ''-0.25'',
      touchpad_tap_enabled = ''0'', touchpad_click_method = ''clickfinger'',
      touchpad_scroll_method = ''edge'', touchpad_dwt_enabled = ''1'',
      touchpad_dwmouse_enabled = ''1'', touchpad_natural_scroll_enabled = ''1''\<rparr> \<and>
   calls (update_touchpad sample_accessors (load (\<lambda>section. Map.empty))
            sample_libinput_touchpad) =
     [Accel_set_speed 0,
      Tap_set_enabled LIBINPUT_CONFIG_TAP_ENABLED,
      Click_set_method LIBINPUT_CONFIG_CLICK_METHOD_BUTTON_AREAS,
      Scroll_set_method LIBINPUT_CONFIG_SCROLL_2FG,
      Dwt_set_enabled LIBINPUT_CONFIG_DWT_DISABLED,
      Send_events_set_mode LIBINPUT_CONFIG_SEND_EVENTS_ENABLED,
      Scroll_set_natural_scroll_enabled False]"
proof -
  have first: "load (\<lambda>section. Map.empty) =
     \<lparr>mouse_cursor_speed = ''0'', touchpad_cursor_speed = ''0'',
      touchpad_tap_enabled = ''1'', touchpad_click_method = ''default'',
      touchpad_scroll_method = ''default'', touchpad_dwt_enabled = ''0'',
      touchpad_dwmouse_enabled = ''0'', touchpad_natural_scroll_enabled = ''0''\<rparr>"
    using load_input_options [where config = "\<lambda>section. Map.empty",
        THEN conjunct2, THEN conjunct2, THEN conjunct2, THEN conjunct1]
    by simp
  have single: "load ((\<lambda>section. Map.empty)(''input'' := [''tap_to_click'' \<mapsto> ''0''])) =
     \<lparr>mouse_cursor_speed = ''0'', touchpad_cursor_speed = ''0'',
      touchpad_tap_enabled = ''0'', touchpad_click_method = ''default'',
      touchpad_scroll_method = ''default'', touchpad_dwt_enabled = ''0'',
      touchpad_dwmouse_enabled = ''0'', touchpad_natural_scroll_enabled = ''0''\<rparr>"
    using load_input_options
      [where config = "(\<lambda>section. Map.empty)(''input'' := [''tap_to_click'' \<mapsto> ''0''])",
        THEN conjunct2, THEN conjunct2, THEN conjunct1]
    by simp
  have second: "load (\<lambda>section. Map.empty) =
     load ((\<lambda>section. Map.empty)
             (''core'' := [''tap_to_click'' \<mapsto> ''0''],
              ''input'' := [''xkb_layout'' \<mapsto> ''us'']))"
    using load_input_options
      [where config = "\<lambda>section. Map.empty"
         and config' = "(\<lambda>section. Map.empty)
             (''core'' := [''tap_to_click'' \<mapsto> ''0''],
              ''input'' := [''xkb_layout'' \<mapsto> ''us''])",
        THEN conjunct2, THEN conjunct2, THEN conjunct2, THEN conjunct2, THEN conjunct1]
    by (simp add: input_option_names_def)
  have third: "load ((\<lambda>section. Map.empty)
           (''input'' := [''mouse_cursor_speed'' \<mapsto> ''0.5'',
                          ''touchpad_cursor_speed'' \<mapsto> ''-0.25'',
                          ''tap_to_click'' \<mapsto> ''0'',
                          ''click_method'' \<mapsto> ''clickfinger'',
                          ''scroll_method'' \<mapsto> ''edge'',
                          ''disable_while_typing'' \<mapsto> ''1'',
                          ''disable_touchpad_while_mouse'' \<mapsto> ''1'',
                          ''natural_scroll'' \<mapsto> ''1''])) =
     \<lparr>mouse_cursor_speed = ''0.5'', touchpad_cursor_speed = ''-0.25'',
      touchpad_tap_enabled = ''0'', touchpad_click_method = ''clickfinger'',
      touchpad_scroll_method = ''edge'', touchpad_dwt_enabled = ''1'',
      touchpad_dwmouse_enabled = ''1'', touchpad_natural_scroll_enabled = ''1''\<rparr>"
    using load_input_options
      [where config = "(\<lambda>section. Map.empty)
           (''input'' := [''mouse_cursor_speed'' \<mapsto> ''0.5'',
                          ''touchpad_cursor_speed'' \<mapsto> ''-0.25'',
                          ''tap_to_click'' \<mapsto> ''0'',
                          ''click_method'' \<mapsto> ''clickfinger'',
                          ''scroll_method'' \<mapsto> ''edge'',
                          ''disable_while_typing'' \<mapsto> ''1'',
                          ''disable_touchpad_while_mouse'' \<mapsto> ''1'',
                          ''natural_scroll'' \<mapsto> ''1''])"
         and ?v1.0 = "''0.5''" and ?v2.0 = "''-0.25''" and ?v3.0 = "''0''"
         and ?v4.0 = "''clickfinger''" and ?v5.0 = "''edge''" and ?v6.0 = "''1''"
         and ?v7.0 = "''1''" and ?v8.0 = "''1''",
        THEN conjunct2, THEN conjunct2, THEN conjunct2, THEN conjunct2, THEN conjunct2,
        THEN conjunct1]
    by (simp add: input_option_names_def)
  have fourth: "calls (update_touchpad sample_accessors (load (\<lambda>section. Map.empty))
            sample_libinput_touchpad) =
     [Accel_set_speed 0,
      Tap_set_enabled LIBINPUT_CONFIG_TAP_ENABLED,
      Click_set_method LIBINPUT_CONFIG_CLICK_METHOD_BUTTON_AREAS,
      Scroll_set_method LIBINPUT_CONFIG_SCROLL_2FG,
      Dwt_set_enabled LIBINPUT_CONFIG_DWT_DISABLED,
      Send_events_set_mode LIBINPUT_CONFIG_SEND_EVENTS_ENABLED,
      Scroll_set_natural_scroll_enabled False]"
    using load_input_options
      [where config = "\<lambda>section. Map.empty"
         and acc = sample_accessors and dev = sample_libinput_touchpad,
        THEN conjunct2, THEN conjunct2, THEN conjunct2, THEN conjunct2, THEN conjunct2,
        THEN conjunct2]
    by (simp add: sample_accessors_def sample_libinput_touchpad_def)
  from first single second third fourth show ?thesis
    by (intro conjI)
qed

section \<open>Drag requests, the drag slot and the drag icon\<close>

text \<open>
  C1: a start-drag request whose serial passes neither the pointer check nor the touch
  check of the current seat starts no drag (no wlroots call that starts one is made),
  leaves the drag slot as it was, so an empty slot stays empty, and emits no signal; the
  request's data source is destroyed and the rejection is written to the debug log. The
  handler returns nothing to its caller: its only result is the state afterwards.
\<close>

theorem rejected_start_drag_request:
  assumes "\<not> wlr_seat_validate_pointer_grab_serial (current_seat core) (origin ev) (serial ev)"
    and "wlr_seat_validate_touch_grab_serial (current_seat core) (origin ev) (serial ev) = None"
  shows "drag_icon (handle_request_start_drag_cb ev core) = drag_icon core \<and>
         released_icons (handle_request_start_drag_cb ev core) = released_icons core \<and>
         emitted (handle_request_start_drag_cb ev core) = emitted core \<and>
         wlr_calls (handle_request_start_drag_cb ev core) =
           wlr_calls core @ [Wlr_data_source_destroy (source (drag ev))] \<and>
         filter starts_drag (wlr_calls (handle_request_start_drag_cb ev core)) =
           filter starts_drag (wlr_calls core) \<and>
         debug_log (handle_request_start_drag_cb ev core) =
           debug_log core @
           [(''Ignoring start_drag request: could not validate pointer or touch serial'',
             serial ev)]"
  using assms by (simp add: handle_request_start_drag_cb_def)

theorem rejected_start_drag_request_witness:
  "\<not> wlr_seat_validate_pointer_grab_serial (current_seat (sample_core :: unit core_t)) 1 40 \<and>
   wlr_seat_validate_touch_grab_serial (current_seat (sample_core :: unit core_t)) 1 40 = None \<and>
   drag_icon (handle_request_start_drag_cb
                \<lparr>drag = sample_drag, origin = 1, serial = 40\<rparr> (sample_core :: unit core_t)) = None \<and>
   wlr_calls (handle_request_start_drag_cb
                \<lparr>drag = sample_drag, origin = 1, serial = 40\<rparr> (sample_core :: unit core_t)) =
     [Wlr_data_source_destroy 3] \<and>
   emitted (handle_request_start_drag_cb
                \<lparr>drag = sample_drag, origin = 1, serial = 40\<rparr> (sample_core :: unit core_t)) = []"
  using rejected_start_drag_request
    [where core = "sample_core :: unit core_t"
       and ev = "\<lparr>drag = sample_drag, origin = 1, serial = 40\<rparr>"]
  by (simp add: sample_core_def sample_seat_def sample_drag_def)

lemma handle_start_drag_cb_with_icon:
  "icon d = Some ic \<Longrightarrow>
   handle_start_drag_cb d core =
     Some (emit_signal ''drag-started'' None
             (assign_drag_icon
                (Some \<lparr>wlr_icon = ic, is_mapped = False, icon_output = None\<rparr>) core))"
  by (simp add: handle_start_drag_cb_def wf_drag_icon_ctor_def)

text \<open>
  C2: for a drag that has an icon, the start-drag handler completes and publishes
  \<^verbatim>\<open>drag-started\<close>; the icon's destroy notification after it publishes \<^verbatim>\<open>drag-stopped\<close>:
  one signal each, in that order, both without payload, and the drag slot is empty
  afterwards. From any state, the destroy notification alone publishes \<^verbatim>\<open>drag-stopped\<close>
  without payload and empties the slot.
\<close>

theorem drag_started_then_stopped:
  "(icon d = Some ic \<longrightarrow>
      (case handle_start_drag_cb d core of
         None \<Rightarrow> False
       | Some started \<Rightarrow>
           emitted started = emitted core @ [(''drag-started'', None)] \<and>
           emitted (handle_drag_icon_destroy started) =
             emitted core @ [(''drag-started'', None), (''drag-stopped'', None)] \<and>
           drag_icon (handle_drag_icon_destroy started) = None)) \<and>
   emitted (handle_drag_icon_destroy core) = emitted core @ [(''drag-stopped'', None)] \<and>
   drag_icon (handle_drag_icon_destroy core) = None"
  by (simp add: handle_start_drag_cb_with_icon handle_drag_icon_destroy_def emit_signal_def
      assign_drag_icon_def)

theorem drag_started_then_stopped_witness:
  "icon sample_drag = Some sample_wlr_icon \<and>
   (case handle_start_drag_cb sample_drag (sample_core :: unit core_t) of
      None \<Rightarrow> False
    | Some started \<Rightarrow>
        emitted (handle_drag_icon_destroy started) =
          [(''drag-started'', None), (''drag-stopped'', None)] \<and>
        drag_icon (handle_drag_icon_destroy started) = None)"
  using drag_started_then_stopped
    [where d = sample_drag and ic = sample_wlr_icon and core = "sample_core :: unit core_t"]
  by (simp add: sample_drag_def sample_core_def split: option.splits)




lemma int32_id: "is_int32 v \<Longrightarrow> int32 v = v"
  by (simp add: is_int32_def int32_def)

lemma get_output_position_from_anchor:
  "get_output_position self core =
     (let anchor = (if grab_type (wlr_icon self) = WLR_DRAG_GRAB_KEYBOARD_TOUCH
                    then touch_position core (touch_id (wlr_icon self))
                    else cursor_position core);
          x1 = (if is_mapped self then int32 (fst anchor + sx (surface (wlr_icon self)))
                else fst anchor);
          y1 = (if is_mapped self then int32 (snd anchor + sy (surface (wlr_icon self)))
                else snd anchor)
      in case icon_output self of
           None \<Rightarrow> (x1, y1)
         | Some out \<Rightarrow>
             (int32 (x1 - box_x (get_layout_geometry out)),
              int32 (y1 - box_y (get_layout_geometry out))))"
  by (simp add: get_output_position_def Let_def split: prod.splits option.splits)

lemma get_output_position_exact:
  assumes "anchor = (if grab_type (wlr_icon self) = WLR_DRAG_GRAB_KEYBOARD_TOUCH
                     then touch_position core (touch_id (wlr_icon self))
                     else cursor_position core)"
    and "dx = (if is_mapped self then sx (surface (wlr_icon self)) else 0)"
    and "dy = (if is_mapped self then sy (surface (wlr_icon self)) else 0)"
    and "ox = (case icon_output self of None \<Rightarrow> 0
               | Some out \<Rightarrow> box_x (get_layout_geometry out))"
    and "oy = (case icon_output self of None \<Rightarrow> 0
               | Some out \<Rightarrow> box_y (get_layout_geometry out))"
    and "is_int32 (fst anchor + dx)" and "is_int32 (fst anchor + dx - ox)"
    and "is_int32 (snd anchor + dy)" and "is_int32 (snd anchor + dy - oy)"
  shows "get_output_position self core = (fst anchor + dx - ox, snd anchor + dy - oy)"
  using assms
  by (cases "icon_output self"; cases "is_mapped self")
    (simp_all add: get_output_position_from_anchor Let_def int32_id)

text \<open>
  C7: \<^verbatim>\<open>get_output_position\<close> starts from the touch position of the drag's touch
  identifier when the grab is touch based and from the pointer position otherwise, adds
  the icon surface's offset when the icon is mapped, and subtracts the origin of the
  icon's output when it has one, each step in 32-bit \<^verbatim>\<open>int\<close> arithmetic; whenever the
  sums and differences fit into 32 bits, the result is the exact sum of anchor and offset
  less the origin. It keeps nothing between calls: with a new pointer position, or a new
  position of the drag's touch point, in the core, the result is the one computed from
  that position, and the position that the grab does not use has no influence.
\<close>

theorem get_output_position_live:
  "get_output_position self core =
     (let anchor = (if grab_type (wlr_icon self) = WLR_DRAG_GRAB_KEYBOARD_TOUCH
                    then touch_position core (touch_id (wlr_icon self))
                    else cursor_position core);
          x1 = (if is_mapped self then int32 (fst anchor + sx (surface (wlr_icon self)))
                else fst anchor);
          y1 = (if is_mapped self then int32 (snd anchor + sy (surface (wlr_icon self)))
                else snd anchor)
      in case icon_output self of
           None \<Rightarrow> (x1, y1)
         | Some out \<Rightarrow>
             (int32 (x1 - box_x (get_layout_geometry out)),
              int32 (y1 - box_y (get_layout_geometry out)))) \<and>
   (anchor = (if grab_type (wlr_icon self) = WLR_DRAG_GRAB_KEYBOARD_TOUCH
              then touch_position core (touch_id (wlr_icon self))
              else cursor_position core) \<and>
    dx = (if is_mapped self then sx (surface (wlr_icon self)) else 0) \<and>
    dy = (if is_mapped self then sy (surface (wlr_icon self)) else 0) \<and>
    ox = (case icon_output self of None \<Rightarrow> 0
          | Some out \<Rightarrow> box_x (get_layout_geometry out)) \<and>
    oy = (case icon_output self of None \<Rightarrow> 0
          | Some out \<Rightarrow> box_y (get_layout_geometry out)) \<and>
    is_int32 (fst anchor + dx) \<and> is_int32 (fst anchor + dx - ox) \<and>
    is_int32 (snd anchor + dy) \<and> is_int32 (snd anchor + dy - oy) \<longrightarrow>
    get_output_position self core = (fst anchor + dx - ox, snd anchor + dy - oy)) \<and>
   (grab_type (wlr_icon self) \<noteq> WLR_DRAG_GRAB_KEYBOARD_TOUCH \<longrightarrow>
    get_output_position self (core\<lparr>cursor_position := p\<rparr>) =
      (let x1 = (if is_mapped self then int32 (fst p + sx (surface (wlr_icon self)))
                 else fst p);
           y1 = (if is_mapped self then int32 (snd p + sy (surface (wlr_icon self)))
                 else snd p)
       in case icon_output self of
            None \<Rightarrow> (x1, y1)
          | Some out \<Rightarrow>
              (int32 (x1 - box_x (get_layout_geometry out)),
               int32 (y1 - box_y (get_layout_geometry out))))) \<and>
   (grab_type (wlr_icon self) = WLR_DRAG_GRAB_KEYBOARD_TOUCH \<longrightarrow>
    get_output_position self
        (core\<lparr>touch_position := (touch_position core)(touch_id (wlr_icon self) := p)\<rparr>) =
      (let x1 = (if is_mapped self then int32 (fst p + sx (surface (wlr_icon self)))
                 else fst p);
           y1 = (if is_mapped self then int32 (snd p + sy (surface (wlr_icon self)))
                 else snd p)
       in case icon_output self of
            None \<Rightarrow> (x1, y1)
          | Some out \<Rightarrow>
              (int32 (x1 - box_x (get_layout_geometry out)),
               int32 (y1 - box_y (get_layout_geometry out))))) \<and>
   (grab_type (wlr_icon self) = WLR_DRAG_GRAB_KEYBOARD_TOUCH \<longrightarrow>
    get_output_position self (core\<lparr>cursor_position := p\<rparr>) = get_output_position self core) \<and>
   (grab_type (wlr_icon self) \<noteq> WLR_DRAG_GRAB_KEYBOARD_TOUCH \<longrightarrow>
    get_output_position self (core\<lparr>touch_position := tp\<rparr>) = get_output_position self core)"
proof -
  have exact: "get_output_position self core = (fst anchor + dx - ox, snd anchor + dy - oy)"
    if "anchor = (if grab_type (wlr_icon self) = WLR_DRAG_GRAB_KEYBOARD_TOUCH
              then touch_position core (touch_id (wlr_icon self))
              else cursor_position core) \<and>
    dx = (if is_mapped self then sx (surface (wlr_icon self)) else 0) \<and>
    dy = (if is_mapped self then sy (surface (wlr_icon self)) else 0) \<and>
    ox = (case icon_output self of None \<Rightarrow> 0
          | Some out \<Rightarrow> box_x (get_layout_geometry out)) \<and>
    oy = (case icon_output self of None \<Rightarrow> 0
          | Some out \<Rightarrow> box_y (get_layout_geometry out)) \<and>
    is_int32 (fst anchor + dx) \<and> is_int32 (fst anchor + dx - ox) \<and>
    is_int32 (snd anchor + dy) \<and> is_int32 (snd anchor + dy - oy)"
    using that get_output_position_exact [of anchor self core dx dy ox oy] by blast
  have pointer: "get_output_position self (core\<lparr>cursor_position := p\<rparr>) =
      (let x1 = (if is_mapped self then int32 (fst p + sx (surface (wlr_icon self)))
                 else fst p);
           y1 = (if is_mapped self then int32 (snd p + sy (surface (wlr_icon self)))
                 else snd p)
       in case icon_output self of
            None \<Rightarrow> (x1, y1)
          | Some out \<Rightarrow>
              (int32 (x1 - box_x (get_layout_geometry out)),
               int32 (y1 - box_y (get_layout_geometry out))))"
    if "grab_type (wlr_icon self) \<noteq> WLR_DRAG_GRAB_KEYBOARD_TOUCH"
    using that by (simp add: get_output_position_from_anchor Let_def)
  have touch: "get_output_position self
        (core\<lparr>touch_position := (touch_position core)(touch_id (wlr_icon self) := p)\<rparr>) =
      (let x1 = (if is_mapped self then int32 (fst p + sx (surface (wlr_icon self)))
                 else fst p);
           y1 = (if is_mapped self then int32 (snd p + sy (surface (wlr_icon self)))
                 else snd p)
       in case icon_output self of
            None \<Rightarrow> (x1, y1)
          | Some out \<Rightarrow>
              (int32 (x1 - box_x (get_layout_geometry out)),
               int32 (y1 - box_y (get_layout_geometry out))))"
    if "grab_type (wlr_icon self) = WLR_DRAG_GRAB_KEYBOARD_TOUCH"
    using that by (simp add: get_output_position_from_anchor Let_def)
  have other1: "get_output_position self (core\<lparr>cursor_position := p\<rparr>) =
      get_output_position self core"
    if "grab_type (wlr_icon self) = WLR_DRAG_GRAB_KEYBOARD_TOUCH"
    using that by (simp add: get_output_position_from_anchor Let_def)
  have other2: "get_output_position self (core\<lparr>touch_position := tp\<rparr>) =
      get_output_position self core"
    if "grab_type (wlr_icon self) \<noteq> WLR_DRAG_GRAB_KEYBOARD_TOUCH"
    using that by (simp add: get_output_position_from_anchor Let_def)
  show ?thesis
    using get_output_position_from_anchor [of self core] exact pointer touch other1 other2
    by blast
qed

theorem get_output_position_live_witness:
  "get_output_position
     \<lparr>wlr_icon = sample_wlr_icon, is_mapped = True, icon_output = Some sample_output_left\<rparr>
     (sample_core :: unit core_t) = (55, 45) \<and>
   get_output_position
     \<lparr>wlr_icon = sample_wlr_icon, is_mapped = True, icon_output = Some sample_output_left\<rparr>
     ((sample_core :: unit core_t)\<lparr>cursor_position := (400, 300)\<rparr>) = (305, 305) \<and>
   get_output_position
     \<lparr>wlr_icon = sample_wlr_icon\<lparr>grab_type := WLR_DRAG_GRAB_KEYBOARD_TOUCH\<rparr>,
      is_mapped = False, icon_output = None\<rparr>
     ((sample_core :: unit core_t)
        \<lparr>touch_position := (touch_position (sample_core :: unit core_t))(0 := (12, 34))\<rparr>) =
     (12, 34) \<and>
   get_output_position
     \<lparr>wlr_icon = sample_wlr_icon\<lparr>surface := \<lparr>sx = 1, sy = 0\<rparr>\<rparr>,
      is_mapped = True, icon_output = None\<rparr>
     ((sample_core :: unit core_t)\<lparr>cursor_position := (2147483647, 0)\<rparr>) =
     (- 2147483648, 0)"
proof -
  let ?on_left =
    "\<lparr>wlr_icon = sample_wlr_icon, is_mapped = True, icon_output = Some sample_output_left\<rparr>"
  let ?touch =
    "\<lparr>wlr_icon = sample_wlr_icon\<lparr>grab_type := WLR_DRAG_GRAB_KEYBOARD_TOUCH\<rparr>,
      is_mapped = False, icon_output = None\<rparr>"
  let ?edge =
    "\<lparr>wlr_icon = sample_wlr_icon\<lparr>surface := \<lparr>sx = 1, sy = 0\<rparr>\<rparr>,
      is_mapped = True, icon_output = None\<rparr>"
  have exact: "get_output_position ?on_left (sample_core :: unit core_t) = (55, 45)"
    using get_output_position_live
      [where self = ?on_left and core = "sample_core :: unit core_t"
         and anchor = "(150, 40)" and dx = 5 and dy = 5 and ox = 100 and oy = 0,
        THEN conjunct2, THEN conjunct1]
    by (simp add: sample_core_def sample_wlr_icon_def sample_output_left_def is_int32_def)
  have pointer: "get_output_position ?on_left
      ((sample_core :: unit core_t)\<lparr>cursor_position := (400, 300)\<rparr>) = (305, 305)"
    using get_output_position_live
      [where self = ?on_left and core = "sample_core :: unit core_t" and p = "(400, 300)",
        THEN conjunct2, THEN conjunct2, THEN conjunct1]
    by (simp add: sample_wlr_icon_def sample_output_left_def int32_def)
  have touch: "get_output_position ?touch
      ((sample_core :: unit core_t)
         \<lparr>touch_position := (touch_position (sample_core :: unit core_t))(0 := (12, 34))\<rparr>) =
      (12, 34)"
    using get_output_position_live
      [where self = ?touch and core = "sample_core :: unit core_t" and p = "(12, 34)",
        THEN conjunct2, THEN conjunct2, THEN conjunct2, THEN conjunct1]
    by (simp add: sample_wlr_icon_def)
  have edge: "get_output_position ?edge
      ((sample_core :: unit core_t)\<lparr>cursor_position := (2147483647, 0)\<rparr>) =
      (- 2147483648, 0)"
    using get_output_position_live
      [where self = ?edge and core = "sample_core :: unit core_t" and p = "(2147483647, 0)",
        THEN conjunct2, THEN conjunct2, THEN conjunct1]
    by (simp add: sample_wlr_icon_def int32_def)
  from exact pointer touch edge show ?thesis
    by (intro conjI)
qed

section \<open>Damage of the drag icon\<close>

lemma length_for_each_output: "length (for_each_output f outs) = length outs"
  by (induction outs) simp_all

lemma nth_for_each_output: "i < length outs \<Longrightarrow> for_each_output f outs ! i = f (outs ! i)"
proof (induction outs arbitrary: i)
  case Nil
  then show ?case by simp
next
  case (Cons out outs)
  then show ?case by (cases i) simp_all
qed

text \<open>
  The translation in \<^verbatim>\<open>damage\<close> needs no wrap-around: for boxes of 32-bit fields it is
  made only after the intersection test, and then the differences fit into 32 bits.
\<close>

lemma damage_translation_fits:
  assumes "box_intersects og box"
    and "is_int32 (box_width og)" and "is_int32 (box_height og)"
    and "is_int32 (box_width box)" and "is_int32 (box_height box)"
  shows "is_int32 (box_x box - box_x og) \<and> is_int32 (box_y box - box_y og)"
  using assms by (simp add: box_intersects_def is_int32_def)

lemma damage_output_eq:
  "damage_output box out =
     out\<lparr>render_damage := render_damage out @
       (if box_intersects (get_layout_geometry out) box
        then [damage_box_from_geometry_box out
                \<lparr>box_x = box_x box - box_x (get_layout_geometry out),
                 box_y = box_y box - box_y (get_layout_geometry out),
                 box_width = box_width box, box_height = box_height box\<rparr>]
        else [])\<rparr>"
  by (cases box) (simp add: damage_output_def Let_def)

text \<open>
  C6: \<^verbatim>\<open>damage\<close> changes nothing when the icon is unmapped. When it is mapped, every
  output whose layout geometry intersects the box is given exactly one more damage box,
  the given box moved by the output's origin (same width and height) and converted by the
  output's framebuffer; every other output is given none, and no output is added or
  removed. With the pointer at (150, 40) and an icon offset of (5, 5) the box starts at
  (155, 45); an output at (100, 0) of size 800 by 600 is given the box at (55, 45), and an
  output at (800, 0) that the box does not reach is given nothing.
\<close>

theorem damage_per_output:
  "(\<not> is_mapped self \<longrightarrow> damage box self core = core) \<and>
   (is_mapped self \<longrightarrow>
      length (outputs (damage box self core)) = length (outputs core) \<and>
      (\<forall>i < length (outputs core).
         outputs (damage box self core) ! i =
           (outputs core ! i)\<lparr>render_damage := render_damage (outputs core ! i) @
             (if box_intersects (get_layout_geometry (outputs core ! i)) box
              then [damage_box_from_geometry_box (outputs core ! i)
                      \<lparr>box_x = box_x box - box_x (get_layout_geometry (outputs core ! i)),
                       box_y = box_y box - box_y (get_layout_geometry (outputs core ! i)),
                       box_width = box_width box, box_height = box_height box\<rparr>]
              else [])\<rparr>))"
  by (simp add: damage_def length_for_each_output nth_for_each_output damage_output_eq)

theorem damage_per_output_witness:
  "get_output_position \<lparr>wlr_icon = sample_wlr_icon, is_mapped = True, icon_output = None\<rparr>
     (sample_core :: unit core_t) = (155, 45) \<and>
   box_intersects (get_layout_geometry sample_output_left)
     \<lparr>box_x = 155, box_y = 45, box_width = 32, box_height = 32\<rparr> \<and>
   \<not> box_intersects (get_layout_geometry sample_output_right)
     \<lparr>box_x = 155, box_y = 45, box_width = 32, box_height = 32\<rparr> \<and>
   outputs (damage \<lparr>box_x = 155, box_y = 45, box_width = 32, box_height = 32\<rparr>
              \<lparr>wlr_icon = sample_wlr_icon, is_mapped = True, icon_output = None\<rparr>
              (sample_core :: unit core_t)) =
     [sample_output_left
        \<lparr>render_damage := [\<lparr>box_x = 55, box_y = 45, box_width = 32, box_height = 32\<rparr>]\<rparr>,
      sample_output_right] \<and>
   damage \<lparr>box_x = 155, box_y = 45, box_width = 32, box_height = 32\<rparr>
     \<lparr>wlr_icon = sample_wlr_icon, is_mapped = False, icon_output = None\<rparr>
     (sample_core :: unit core_t) = sample_core"
proof -
  let ?box = "\<lparr>box_x = 155, box_y = 45, box_width = 32, box_height = 32\<rparr>"
  let ?mapped = "\<lparr>wlr_icon = sample_wlr_icon, is_mapped = True, icon_output = None\<rparr>"
  let ?unmapped = "\<lparr>wlr_icon = sample_wlr_icon, is_mapped = False, icon_output = None\<rparr>"
  have pos: "get_output_position ?mapped (sample_core :: unit core_t) = (155, 45)"
    by (simp add: get_output_position_def int32_def sample_core_def sample_wlr_icon_def)
  have left: "box_intersects (get_layout_geometry sample_output_left) ?box"
    by (simp add: box_intersects_def sample_output_left_def)
  have right: "\<not> box_intersects (get_layout_geometry sample_output_right) ?box"
    by (simp add: box_intersects_def sample_output_right_def)
  have len: "length (outputs (damage ?box ?mapped (sample_core :: unit core_t))) = 2"
    using damage_per_output [of ?mapped ?box "sample_core :: unit core_t"]
    by (simp add: sample_core_def)
  have nth0: "outputs (damage ?box ?mapped (sample_core :: unit core_t)) ! 0 =
      sample_output_left
        \<lparr>render_damage := [\<lparr>box_x = 55, box_y = 45, box_width = 32, box_height = 32\<rparr>]\<rparr>"
    using damage_per_output [of ?mapped ?box "sample_core :: unit core_t"] left
    by (simp add: sample_core_def sample_output_left_def)
  have nth1: "outputs (damage ?box ?mapped (sample_core :: unit core_t)) ! 1 =
      sample_output_right"
    using damage_per_output [of ?mapped ?box "sample_core :: unit core_t"] right
    by (simp add: sample_core_def sample_output_right_def)
  have outs: "outputs (damage ?box ?mapped (sample_core :: unit core_t)) =
      [sample_output_left
        \<lparr>render_damage := [\<lparr>box_x = 55, box_y = 45, box_width = 32, box_height = 32\<rparr>]\<rparr>,
       sample_output_right]"
    using len nth0 nth1 by (auto simp: list_eq_iff_nth_eq less_Suc_eq numeral_2_eq_2)
  have unmapped: "damage ?box ?unmapped (sample_core :: unit core_t) = sample_core"
    using damage_per_output [of ?unmapped ?box "sample_core :: unit core_t"] by simp
  from pos left right outs unmapped show ?thesis
    by (intro conjI)
qed

section \<open>Switch toggles\<close>

text \<open>
  C4, as stated, has no signal published for a switch kind other than tablet mode and
  lid. The call of \<^verbatim>\<open>emit_signal\<close> is not guarded: for the kind 3, which the
  enumeration does not name, a signal with the empty name is published.
\<close>

theorem handle_switched_other_kind_counterexample:
  "emitted (handle_switched \<lparr>switch_type = 3, switch_state = 1\<rparr> sample_switch sample_core) =
     [([], Some \<lparr>device = sample_switch, state = True\<rparr>)] \<and>
   emitted (handle_switched \<lparr>switch_type = 3, switch_state = 1\<rparr> sample_switch sample_core) \<noteq>
     emitted (sample_core :: int switch_signal core_t)"
  by (simp add: handle_switched_def emit_signal_def sample_core_def
      WLR_SWITCH_TYPE_TABLET_MODE_def WLR_SWITCH_TYPE_LID_def WLR_SWITCH_STATE_ON_def)

text \<open>
  C4, amended: a switch toggle publishes exactly one signal, which carries the device and
  whether the switch is on; its name is \<^verbatim>\<open>tablet-mode\<close> for a tablet-mode switch,
  \<^verbatim>\<open>lid-state\<close> for a lid switch, and the empty string for any other value of the kind.
  Nothing else of the core changes.
\<close>

theorem handle_switched_signal:
  "handle_switched ev self core =
     core\<lparr>emitted := emitted core @
       [(if switch_type ev = WLR_SWITCH_TYPE_TABLET_MODE then ''tablet-mode''
         else if switch_type ev = WLR_SWITCH_TYPE_LID then ''lid-state''
         else [],
         Some \<lparr>device = self, state = (switch_state ev = WLR_SWITCH_STATE_ON)\<rparr>)]\<rparr> \<and>
   WLR_SWITCH_TYPE_TABLET_MODE \<noteq> WLR_SWITCH_TYPE_LID"
  by (simp add: handle_switched_def emit_signal_def Let_def
      WLR_SWITCH_TYPE_TABLET_MODE_def WLR_SWITCH_TYPE_LID_def)

end
